theory Spec2Isabelle
  imports Complex_Main "HOL-Library.Char_ord" "HOL-Library.List_Lexorder"
begin

section \<open>Python strings\<close>

text \<open>
  A Python \<open>bytes\<close> value is a list of 8-bit characters. A Python \<open>str\<close> is a list of
  Unicode code points, each a natural number; \<open>u\<close> reads an ASCII literal as a \<open>str\<close>.
  Strings are compared as Python compares them, code point by code point, a proper prefix
  being the smaller.
\<close>

type_synonym bytes = string

type_synonym str = "nat list"

definition u :: "string \<Rightarrow> str" where
  "u s = map of_char s"

text \<open>\<open>str.lower()\<close> on an ASCII character: \<open>A\<close>..\<open>Z\<close> change, nothing else does.\<close>

definition lower_code :: "nat \<Rightarrow> nat" where
  "lower_code c = (if 65 \<le> c \<and> c \<le> 90 then c + 32 else c)"

text \<open>
  The white space of \<open>str.split()\<close> and \<open>str.strip()\<close>: the code points for which
  \<open>str.isspace()\<close> holds.
\<close>

definition is_space :: "nat \<Rightarrow> bool" where
  "is_space c =
     (c \<in> {9, 10, 11, 12, 13, 28, 29, 30, 31, 32, 133, 160, 5760,
            8192, 8193, 8194, 8195, 8196, 8197, 8198, 8199, 8200, 8201, 8202,
            8232, 8233, 8239, 8287, 12288})"

text \<open>\<open>bytes.split()\<close> splits at the white space of \<open>bytes.isspace\<close>.\<close>

definition is_space_byte :: "char \<Rightarrow> bool" where
  "is_space_byte c = ((of_char c :: nat) \<in> {9, 10, 11, 12, 13, 32})"

text \<open>\<open>sub in s\<close>\<close>

fun contains :: "'a list \<Rightarrow> 'a list \<Rightarrow> bool" where
  "contains sub [] = (sub = [])"
| "contains sub (c # cs) = (take (length sub) (c # cs) = sub \<or> contains sub cs)"

text \<open>
  \<open>s.split(sep)\<close> for a separator that is not empty (both separators of the program are
  literals): the pieces between the occurrences of \<open>sep\<close>, found from the left and not
  overlapping. \<open>cur\<close> is the piece read so far.
\<close>

fun split_from :: "'a list \<Rightarrow> 'a list \<Rightarrow> 'a list \<Rightarrow> 'a list list" where
  "split_from sep cur [] = [cur]"
| "split_from sep cur (c # cs) =
     (if sep \<noteq> [] \<and> take (length sep) (c # cs) = sep
      then cur # split_from sep [] (drop (length sep - 1) cs)
      else split_from sep (cur @ [c]) cs)"

definition split_sep :: "'a list \<Rightarrow> 'a list \<Rightarrow> 'a list list" where
  "split_sep sep s = split_from sep [] s"

text \<open>\<open>s.split()\<close>: the maximal runs of characters that are not white space.\<close>

fun words_from :: "('a \<Rightarrow> bool) \<Rightarrow> 'a list \<Rightarrow> 'a list \<Rightarrow> 'a list list" where
  "words_from sp cur [] = (if cur = [] then [] else [cur])"
| "words_from sp cur (c # cs) =
     (if sp c then (if cur = [] then words_from sp [] cs else cur # words_from sp [] cs)
      else words_from sp (cur @ [c]) cs)"

definition split_ws :: "str \<Rightarrow> str list" where
  "split_ws s = words_from is_space [] s"

definition bytes_split :: "bytes \<Rightarrow> bytes list" where
  "bytes_split b = words_from is_space_byte [] b"

text \<open>\<open>' '.join(ws)\<close>\<close>

fun join_sp :: "str list \<Rightarrow> str" where
  "join_sp [] = []"
| "join_sp [w] = w"
| "join_sp (w # v # ws) = w @ u '' '' @ join_sp (v # ws)"

text \<open>\<open>s.strip()\<close> and \<open>s.strip(chars)\<close>: drop the characters in question at both ends.\<close>

definition strip_by :: "('a \<Rightarrow> bool) \<Rightarrow> 'a list \<Rightarrow> 'a list" where
  "strip_by p s = rev (dropWhile p (rev (dropWhile p s)))"

definition strip :: "str \<Rightarrow> str" where
  "strip s = strip_by is_space s"

section \<open>Exceptions\<close>

text \<open>
  An exception is either FastAPI's \<open>HTTPException\<close> with its status code and detail, or
  any other exception, of which the program only ever uses \<open>str(e)\<close>. A computation that
  can raise returns \<open>exn + 'a\<close>.
\<close>

datatype exn = HTTPException nat str | Exception str

section \<open>Library functions and the mail server\<close>

text \<open>
  The parts of the Python library whose results the program only passes on are parameters
  of the model: \<open>hashlib.md5(..).hexdigest()\<close>, \<open>email.header.decode_header\<close>,
  \<open>bytes.decode(encoding)\<close>, \<open>bytes.decode('utf-8', errors='ignore')\<close>,
  \<open>email.message_from_bytes\<close>, \<open>str(e)\<close> of an \<open>HTTPException\<close>, and \<open>str.lower()\<close> on
  text that is not ASCII.
\<close>

datatype hpart = PartBytes bytes | PartStr str

record mime_part =
  content_type :: str
  payload :: "exn + bytes option"

text \<open>
  A parsed message: the three headers the program reads (\<open>None\<close> when the header is
  missing), \<open>is_multipart()\<close>, the parts \<open>walk()\<close> yields, and \<open>get_payload(decode=True)\<close>
  of the message itself.
\<close>

record parsed_email =
  header_from :: "str option"
  header_subject :: "str option"
  header_date :: "str option"
  is_multipart :: bool
  walk :: "mime_part list"
  body_payload :: "exn + bytes option"

record pylib =
  md5_hexdigest :: "str \<Rightarrow> str"
  decode_header :: "str \<Rightarrow> exn + (hpart \<times> str option) list"
  bytes_decode :: "bytes \<Rightarrow> str \<Rightarrow> exn + str"
  decode_utf8_ignore :: "bytes \<Rightarrow> str"
  message_from_bytes :: "bytes \<Rightarrow> exn + parsed_email"
  http_exception_str :: "nat \<Rightarrow> str \<Rightarrow> str"
  str_lower :: "str \<Rightarrow> str"

text \<open>
  \<open>s.lower()\<close>: on ASCII text Python changes \<open>A\<close>..\<open>Z\<close> character by character; on
  any other text the result is the library's (Unicode lower case, which may depend on
  the neighbouring characters and change the length).
\<close>

definition lower :: "pylib \<Rightarrow> str \<Rightarrow> str" where
  "lower lib s = (if \<forall>c\<in>set s. c < 128 then map lower_code s else str_lower lib s)"

text \<open>\<open>str(e)\<close>\<close>

definition exn_str :: "pylib \<Rightarrow> exn \<Rightarrow> str" where
  "exn_str lib e =
     (case e of Exception s \<Rightarrow> s | HTTPException c d \<Rightarrow> http_exception_str lib c d)"

text \<open>
  The mail server answers each command of a session with an exception or a response.
  An entry of the folder listing is a \<open>bytes\<close> line, or something else (\<open>None\<close>, a
  tuple) on which \<open>.decode()\<close> raises. \<open>imap_search\<close> gives the status and
  \<open>message_ids[0]\<close> (\<open>None\<close> when it has no \<open>split\<close>); \<open>imap_fetch\<close> gives the status and
  \<open>msg_data[0][1]\<close> (\<open>None\<close> when the indexing raises). Both depend on the folder
  that was selected.
\<close>

datatype list_item = ItemBytes bytes | ItemOther

record imap_server =
  imap_connect :: "str \<Rightarrow> nat \<Rightarrow> exn + unit"
  imap_login :: "str \<Rightarrow> str \<Rightarrow> exn + unit"
  imap_list :: "exn + (str \<times> list_item list)"
  imap_select :: "str \<Rightarrow> exn + str"
  imap_search :: "str \<Rightarrow> exn + (str \<times> bytes option)"
  imap_fetch :: "str \<Rightarrow> bytes \<Rightarrow> exn + (str \<times> bytes option)"
  imap_close :: "exn + unit"
  imap_logout :: "exn + unit"

section \<open>Server resolver\<close>

text \<open>
  \<open>email_address.split('@')[1]\<close> raises \<open>IndexError\<close> when the split has one piece only.
\<close>

definition get_imap_server :: "pylib \<Rightarrow> str \<Rightarrow> exn + str" where
  "get_imap_server lib email_address =
     (case split_sep (u ''@'') email_address of
        _ # d # _ \<Rightarrow>
          (let domain = lower lib d in
           if contains (u ''gmail'') domain then Inr (u ''imap.gmail.com'')
           else if contains (u ''yahoo'') domain then Inr (u ''imap.mail.yahoo.com'')
           else if contains (u ''outlook'') domain \<or> contains (u ''hotmail'') domain
                   \<or> contains (u ''live'') domain then Inr (u ''outlook.office365.com'')
           else if contains (u ''icloud'') domain then Inr (u ''imap.mail.me.com'')
           else Inr (u ''imap.'' @ domain))
      | _ \<Rightarrow> Inl (Exception (u ''list index out of range'')))"

section \<open>Header decoder\<close>

fun decode_parts :: "pylib \<Rightarrow> str \<Rightarrow> (hpart \<times> str option) list \<Rightarrow> exn + str" where
  "decode_parts lib result [] = Inr result"
| "decode_parts lib result ((part, encoding) # rest) =
     (case part of
        PartBytes b \<Rightarrow>
          (case encoding of
             Some (c # cs) \<Rightarrow>
               (case bytes_decode lib b (c # cs) of
                  Inl e \<Rightarrow> Inl e
                | Inr t \<Rightarrow> decode_parts lib (result @ t) rest)
           | _ \<Rightarrow> decode_parts lib (result @ decode_utf8_ignore lib b) rest)
      | PartStr t \<Rightarrow> decode_parts lib (result @ t) rest)"

text \<open>The body of the \<open>try\<close> of \<open>decode_mime_words\<close>.\<close>

definition decode_mime_words_try :: "pylib \<Rightarrow> str \<Rightarrow> exn + str" where
  "decode_mime_words_try lib s =
     (case decode_header lib s of
        Inl e \<Rightarrow> Inl e
      | Inr decoded_parts \<Rightarrow> decode_parts lib [] decoded_parts)"

text \<open>The bare \<open>except\<close> returns \<open>str(s)\<close>, which is \<open>s\<close> for a string.\<close>

definition decode_mime_words :: "pylib \<Rightarrow> str \<Rightarrow> exn + str" where
  "decode_mime_words lib s =
     (case decode_mime_words_try lib s of
        Inl e \<Rightarrow> Inr s
      | Inr result \<Rightarrow> Inr result)"

text \<open>
  \<open>re.search(r'<([^>]+)>', s)\<close>: the leftmost \<open><\<close> that is followed by at least one
  character other than \<open>>\<close> and then by \<open>>\<close>; the group is what lies between.
\<close>

fun re_search_angle :: "str \<Rightarrow> str option" where
  "re_search_angle [] = None"
| "re_search_angle (c # cs) =
     (if c = of_char (CHR ''<'') \<and> takeWhile (\<lambda>x. x \<noteq> of_char (CHR ''>'')) cs \<noteq> []
         \<and> dropWhile (\<lambda>x. x \<noteq> of_char (CHR ''>'')) cs \<noteq> []
      then Some (takeWhile (\<lambda>x. x \<noteq> of_char (CHR ''>'')) cs)
      else re_search_angle cs)"

definition extract_email_address :: "str \<Rightarrow> str" where
  "extract_email_address sender_field =
     (if of_char (CHR ''<'') \<in> set sender_field \<and> of_char (CHR ''>'') \<in> set sender_field
      then (case re_search_angle sender_field of
              Some g \<Rightarrow> strip g
            | None \<Rightarrow> strip sender_field)
      else strip sender_field)"

section \<open>Cache store\<close>

record message =
  uid :: str
  sender :: str
  subject :: str
  date :: str
  folder :: str
  snippet :: str

record cache_entry =
  data :: "message list"
  timestamp :: real

type_synonym cache = "str \<rightharpoonup> cache_entry"

definition CACHE_TTL :: real where
  "CACHE_TTL = 600"

definition get_cache_key :: "pylib \<Rightarrow> str \<Rightarrow> str" where
  "get_cache_key lib email = md5_hexdigest lib (email @ u '':'' @ u ''all'')"

text \<open>
  \<open>now\<close> is the value of \<open>time.time()\<close> at the call. The functions return the cache
  as they leave it.
\<close>

definition get_from_cache :: "real \<Rightarrow> str \<Rightarrow> cache \<Rightarrow> message list option \<times> cache" where
  "get_from_cache now key memory_cache =
     (case memory_cache key of
        None \<Rightarrow> (None, memory_cache)
      | Some cached_data \<Rightarrow>
          if now - timestamp cached_data < CACHE_TTL
          then (Some (data cached_data), memory_cache)
          else (None, memory_cache(key := None)))"

definition set_cache :: "real \<Rightarrow> str \<Rightarrow> message list \<Rightarrow> cache \<Rightarrow> cache" where
  "set_cache now key d memory_cache = memory_cache(key \<mapsto> \<lparr>data = d, timestamp = now\<rparr>)"

section \<open>Folder fetcher\<close>

text \<open>\<open>email_message.get(name, '')\<close>\<close>

definition header_get :: "str option \<Rightarrow> str" where
  "header_get h = (case h of None \<Rightarrow> [] | Some v \<Rightarrow> v)"

text \<open>
  The loop over \<open>walk()\<close>: the first part of type \<open>text/plain\<close> whose payload is read
  without an exception and is not empty gives the snippet and ends the loop.
\<close>

fun first_plain_text :: "pylib \<Rightarrow> mime_part list \<Rightarrow> str" where
  "first_plain_text lib [] = []"
| "first_plain_text lib (part # parts) =
     (if content_type part = u ''text/plain''
      then (case payload part of
              Inl e \<Rightarrow> first_plain_text lib parts
            | Inr None \<Rightarrow> first_plain_text lib parts
            | Inr (Some []) \<Rightarrow> first_plain_text lib parts
            | Inr (Some (b # bs)) \<Rightarrow> take 200 (decode_utf8_ignore lib (b # bs)))
      else first_plain_text lib parts)"

definition raw_snippet :: "pylib \<Rightarrow> parsed_email \<Rightarrow> str" where
  "raw_snippet lib email_message =
     (if is_multipart email_message then first_plain_text lib (walk email_message)
      else (case body_payload email_message of
              Inr (Some (b # bs)) \<Rightarrow> take 200 (decode_utf8_ignore lib (b # bs))
            | _ \<Rightarrow> []))"

text \<open>\<open>' '.join(snippet.split())[:200] if snippet else ""\<close>\<close>

definition clean_snippet :: "str \<Rightarrow> str" where
  "clean_snippet s = (if s \<noteq> [] then take 200 (join_sp (split_ws s)) else [])"

text \<open>
  The body of the \<open>try\<close> inside the loop, for one identifier: an exception (\<open>Inl\<close>) and
  a status other than \<open>OK\<close> (\<open>Inr None\<close>) both go on to the next identifier.
\<close>

definition fetch_one :: "pylib \<Rightarrow> imap_server \<Rightarrow> str \<Rightarrow> bytes \<Rightarrow> exn + message option" where
  "fetch_one lib mail fld msg_id =
     (case imap_fetch mail fld msg_id of
        Inl e \<Rightarrow> Inl e
      | Inr (status, msg_data) \<Rightarrow>
          if status \<noteq> u ''OK'' then Inr None
          else (case msg_data of
             None \<Rightarrow> Inl (Exception (u ''object is not subscriptable''))
           | Some raw_email \<Rightarrow>
          (case message_from_bytes lib raw_email of
             Inl e \<Rightarrow> Inl e
           | Inr email_message \<Rightarrow>
          (case decode_mime_words lib (header_get (header_from email_message)) of
             Inl e \<Rightarrow> Inl e
           | Inr sndr \<Rightarrow>
          (case decode_mime_words lib (header_get (header_subject email_message)) of
             Inl e \<Rightarrow> Inl e
           | Inr subj \<Rightarrow>
          (case bytes_decode lib msg_id (u ''utf-8'') of
             Inl e \<Rightarrow> Inl e
           | Inr msg_uid \<Rightarrow>
               Inr (Some \<lparr>uid = msg_uid, sender = sndr, subject = subj,
                          date = header_get (header_date email_message), folder = fld,
                          snippet = clean_snippet (raw_snippet lib email_message)\<rparr>)))))))"

fun fetch_loop :: "pylib \<Rightarrow> imap_server \<Rightarrow> str \<Rightarrow> bytes list \<Rightarrow> message list" where
  "fetch_loop lib mail fld [] = []"
| "fetch_loop lib mail fld (msg_id # ids) =
     (case fetch_one lib mail fld msg_id of
        Inr (Some m) \<Rightarrow> m # fetch_loop lib mail fld ids
      | _ \<Rightarrow> fetch_loop lib mail fld ids)"

text \<open>
  \<open>xs[start:]\<close>: a negative \<open>start\<close> counts from the end, and the result is clipped to
  the list.
\<close>

definition slice_from :: "int \<Rightarrow> 'a list \<Rightarrow> 'a list" where
  "slice_from start xs =
     (let n = int (length xs);
          s = (if start < 0 then max 0 (start + n) else min start n)
      in drop (nat s) xs)"

definition recent_ids :: "int \<Rightarrow> bytes list \<Rightarrow> bytes list" where
  "recent_ids limit ids = (if int (length ids) > limit then slice_from (- limit) ids else ids)"

text \<open>The body of the outer \<open>try\<close>.\<close>

definition fetch_folder_try :: "pylib \<Rightarrow> imap_server \<Rightarrow> str \<Rightarrow> int \<Rightarrow> exn + message list" where
  "fetch_folder_try lib mail fld limit =
     (case imap_select mail fld of
        Inl e \<Rightarrow> Inl e
      | Inr status \<Rightarrow>
          if status \<noteq> u ''OK'' then Inr []
          else (case imap_search mail fld of
             Inl e \<Rightarrow> Inl e
           | Inr (status', message_ids) \<Rightarrow>
               if status' \<noteq> u ''OK'' then Inr []
               else (case message_ids of
                  None \<Rightarrow> Inl (Exception (u ''object has no attribute split''))
                | Some b \<Rightarrow>
                    Inr (fetch_loop lib mail fld (rev (recent_ids limit (bytes_split b)))))))"

text \<open>
  Every exception of the outer \<open>try\<close> is raised before the loop, when \<open>messages\<close> is
  still empty; the handler prints and the function returns \<open>messages\<close>.
\<close>

definition fetch_messages_from_folder :: "pylib \<Rightarrow> imap_server \<Rightarrow> str \<Rightarrow> int \<Rightarrow> message list" where
  "fetch_messages_from_folder lib mail fld limit =
     (case fetch_folder_try lib mail fld limit of
        Inl e \<Rightarrow> []
      | Inr messages \<Rightarrow> messages)"

section \<open>Account aggregator\<close>

text \<open>
  What the program does to the network at the level of the session is recorded in a
  log, next to the cache: opening the TLS connection, logging in, closing, logging out.
\<close>

datatype net_event = Connect str nat | Login str | Close | Logout

record state =
  memory_cache :: cache
  net_log :: "net_event list"

definition connect_to_imap ::
    "pylib \<Rightarrow> imap_server \<Rightarrow> str \<Rightarrow> str \<Rightarrow> net_event list \<Rightarrow> (exn + unit) \<times> net_event list" where
  "connect_to_imap lib srv email_address password lg =
     (case get_imap_server lib email_address of
        Inl e \<Rightarrow> (Inl e, lg)
      | Inr server \<Rightarrow>
          (case imap_connect srv server 993 of
             Inl e \<Rightarrow>
               (Inl (HTTPException 401 (u ''Failed to connect to email server: '' @ exn_str lib e)),
                lg @ [Connect server 993])
           | Inr _ \<Rightarrow>
               (case imap_login srv email_address password of
                  Inl e \<Rightarrow>
                    (Inl (HTTPException 401
                            (u ''Failed to connect to email server: '' @ exn_str lib e)),
                     lg @ [Connect server 993, Login email_address])
                | Inr _ \<Rightarrow> (Inr (), lg @ [Connect server 993, Login email_address]))))"

definition preferred_folders :: "str list" where
  "preferred_folders =
     [u ''INBOX'', u ''SPAM'', u ''Junk'', u ''PROMOTIONS'', u ''Promotions'', u ''Sent'',
      u ''Drafts'']"

text \<open>The double quote, as a character of a \<open>str\<close>.\<close>

definition dquote :: nat where
  "dquote = 34"

text \<open>\<open>folder.decode().split(' "/" ')[-1].strip('"')\<close>\<close>

definition folder_name :: "pylib \<Rightarrow> list_item \<Rightarrow> exn + str" where
  "folder_name lib item =
     (case item of
        ItemOther \<Rightarrow> Inl (Exception (u ''object has no attribute decode''))
      | ItemBytes b \<Rightarrow>
          (case bytes_decode lib b (u ''utf-8'') of
             Inl e \<Rightarrow> Inl e
           | Inr s \<Rightarrow>
               Inr (strip_by (\<lambda>c. c = dquote)
                      (last (split_sep (u '' '' @ [dquote] @ u ''/'' @ [dquote] @ u '' '') s)))))"

fun folder_names :: "pylib \<Rightarrow> list_item list \<Rightarrow> exn + str list" where
  "folder_names lib [] = Inr []"
| "folder_names lib (item # items) =
     (case folder_name lib item of
        Inl e \<Rightarrow> Inl e
      | Inr n \<Rightarrow>
          (case folder_names lib items of
             Inl e \<Rightarrow> Inl e
           | Inr ns \<Rightarrow> Inr (n # ns)))"

text \<open>The body of the \<open>try\<close> around the folder listing.\<close>

definition list_folders_try :: "pylib \<Rightarrow> imap_server \<Rightarrow> exn + str list" where
  "list_folders_try lib mail =
     (case imap_list mail of
        Inl e \<Rightarrow> Inl e
      | Inr (status, folders) \<Rightarrow>
          if status = u ''OK''
          then (case folder_names lib folders of
                  Inl e \<Rightarrow> Inl e
                | Inr available_folders \<Rightarrow>
                    (let fs = filter (\<lambda>f. f \<in> set available_folders) preferred_folders
                     in Inr (if fs = [] then take 5 available_folders else fs)))
          else Inr preferred_folders)"

definition folders_to_check :: "pylib \<Rightarrow> imap_server \<Rightarrow> str list" where
  "folders_to_check lib mail =
     (case list_folders_try lib mail of
        Inl e \<Rightarrow> [u ''INBOX'', u ''SPAM'', u ''Junk'']
      | Inr fs \<Rightarrow> fs)"

text \<open>
  \<open>all_messages.sort(key=lambda x: x.get('date', ''), reverse=True)\<close>: Python's sort is
  stable, and with \<open>reverse=True\<close> it still keeps the order of equal keys: it sorts the
  reversed list and reverses the result.
\<close>

definition sort_by_date_desc :: "message list \<Rightarrow> message list" where
  "sort_by_date_desc ms = rev (sort_key date (rev ms))"

text \<open>The \<open>finally\<close> clause, for a session that was opened.\<close>

definition release :: "imap_server \<Rightarrow> net_event list \<Rightarrow> net_event list" where
  "release mail lg =
     (case imap_close mail of
        Inl e \<Rightarrow> lg @ [Close]
      | Inr _ \<Rightarrow> lg @ [Close, Logout])"

text \<open>
  \<open>if cached_data:\<close> holds for a list that is not empty. \<open>now_read\<close> and \<open>now_write\<close>
  are the values of \<open>time.time()\<close> when the cache is read and when it is written.
\<close>

definition fetch_messages_from_account ::
    "pylib \<Rightarrow> imap_server \<Rightarrow> real \<Rightarrow> real \<Rightarrow> str \<Rightarrow> str \<Rightarrow> state
       \<Rightarrow> (exn + message list) \<times> state" where
  "fetch_messages_from_account lib srv now_read now_write email_address password st =
     (let cache_key = get_cache_key lib email_address;
          (cached_data, mc) = get_from_cache now_read cache_key (memory_cache st)
      in case cached_data of
           Some (m # ms) \<Rightarrow> (Inr (m # ms), st\<lparr>memory_cache := mc\<rparr>)
         | _ \<Rightarrow>
           (case connect_to_imap lib srv email_address password (net_log st) of
              (Inl e, lg) \<Rightarrow>
                (Inl (HTTPException 500 (u ''Error fetching messages: '' @ exn_str lib e)),
                 \<lparr>memory_cache = mc, net_log = lg\<rparr>)
            | (Inr _, lg) \<Rightarrow>
                (let all_messages =
                       sort_by_date_desc
                         (concat (map (\<lambda>f. fetch_messages_from_folder lib srv f 30)
                                    (folders_to_check lib srv)))
                 in (Inr all_messages,
                     \<lparr>memory_cache = set_cache now_write cache_key all_messages mc,
                      net_log = release srv lg\<rparr>))))"

section \<open>Query layer\<close>

record messages_response =
  messages :: "message list"
  count :: nat

record search_response = messages_response +
  search_term :: str

definition get_messages ::
    "pylib \<Rightarrow> imap_server \<Rightarrow> real \<Rightarrow> real \<Rightarrow> str \<Rightarrow> str \<Rightarrow> state
       \<Rightarrow> (exn + messages_response) \<times> state" where
  "get_messages lib srv now_read now_write email_address password st =
     (case fetch_messages_from_account lib srv now_read now_write email_address password st of
        (Inl (HTTPException c d), st') \<Rightarrow> (Inl (HTTPException c d), st')
      | (Inl (Exception s), st') \<Rightarrow>
          (Inl (HTTPException 500 (u ''Unexpected error: '' @ s)), st')
      | (Inr ms, st') \<Rightarrow> (Inr \<lparr>messages = ms, count = length ms\<rparr>, st'))"

definition sender_matches :: "pylib \<Rightarrow> str \<Rightarrow> message \<Rightarrow> bool" where
  "sender_matches lib sender_lower m =
     (let message_sender = lower lib (sender m);
          sender_email = lower lib (extract_email_address message_sender)
      in contains sender_lower message_sender \<or> contains sender_lower sender_email)"

text \<open>\<open>not sender\<close> holds for \<open>None\<close> and for the empty str.\<close>

definition search_messages ::
    "pylib \<Rightarrow> imap_server \<Rightarrow> real \<Rightarrow> real \<Rightarrow> str \<Rightarrow> str \<Rightarrow> str option \<Rightarrow> state
       \<Rightarrow> (exn + search_response) \<times> state" where
  "search_messages lib srv now_read now_write email_address password sndr st =
     (case sndr of
        None \<Rightarrow> (Inl (HTTPException 400 (u ''Sender parameter is required'')), st)
      | Some [] \<Rightarrow> (Inl (HTTPException 400 (u ''Sender parameter is required'')), st)
      | Some (c # cs) \<Rightarrow>
          (case fetch_messages_from_account lib srv now_read now_write email_address password st of
             (Inl (HTTPException c' d), st') \<Rightarrow> (Inl (HTTPException c' d), st')
           | (Inl (Exception s), st') \<Rightarrow>
               (Inl (HTTPException 500 (u ''Search error: '' @ s)), st')
           | (Inr all_messages, st') \<Rightarrow>
               (let filtered_messages =
                      filter (sender_matches lib (lower lib (c # cs))) all_messages
                in (Inr \<lparr>messages = filtered_messages, count = length filtered_messages,
                         search_term = c # cs\<rparr>, st'))))"

section \<open>Example data\<close>

text \<open>
  A library instance and servers for the examples. In this library the text decoders
  read each byte as the character of that code (what UTF-8 does on ASCII bytes), the
  hash is the identity, and \<open>lower\<close> changes the capital letters of ASCII and Latin-1
  and the Kelvin sign, as Python does, and nothing else. Its parser reads a raw message
  of the form \<open>From|Date|Body\<close>.
\<close>

definition example_lower_code :: "nat \<Rightarrow> nat" where
  "example_lower_code c =
     (if 65 \<le> c \<and> c \<le> 90 then c + 32
      else if 192 \<le> c \<and> c \<le> 222 \<and> c \<noteq> 215 then c + 32
      else if c = 8490 then 107
      else c)"

definition example_parse :: "bytes \<Rightarrow> exn + parsed_email" where
  "example_parse raw =
     (case split_sep ''|'' raw of
        [f, d, b] \<Rightarrow>
          Inr \<lparr>header_from = Some (u f), header_subject = Some (u ''hello''),
               header_date = Some (u d), is_multipart = False, walk = [],
               body_payload = Inr (Some b)\<rparr>
      | _ \<Rightarrow> Inl (Exception (u ''not a message'')))"

definition example_lib :: pylib where
  "example_lib =
     \<lparr>md5_hexdigest = (\<lambda>s. s),
      decode_header = (\<lambda>s. Inr [(PartStr s, None)]),
      bytes_decode = (\<lambda>b enc. Inr (u b)),
      decode_utf8_ignore = (\<lambda>b. u b),
      message_from_bytes = example_parse,
      http_exception_str = (\<lambda>c d. d),
      str_lower = map example_lower_code\<rparr>"

text \<open>The line of a folder listing for the folder \<open>n\<close>: \<open>() "/" "n"\<close>.\<close>

definition list_line :: "bytes \<Rightarrow> list_item" where
  "list_line n =
     ItemBytes (''() '' @ [CHR 0x22, CHR ''/'', CHR 0x22] @ '' '' @ [CHR 0x22] @ n @ [CHR 0x22])"

text \<open>
  A body with runs of white space: two spaces, two line feeds, a tabulator, and spaces
  at the end.
\<close>

definition example_body :: bytes where
  "example_body = ''Dear  Bob,'' @ [CHR 0x0A, CHR 0x0A] @ '' see'' @ [CHR 0x09] @ ''you  ''"

text \<open>
  A server with the single folder \<open>INBOX\<close>, holding the messages 1, 2 and 3 with the
  dates \<open>25 Dec\<close>, \<open>9 Feb\<close> and \<open>03 Jan\<close>; the first two are from \<open>Alice <a@x.com>\<close>,
  the third from \<open>Eric <e@x.com>\<close> written with a capital E acute (byte \<open>0xC9\<close>, code
  point 201; the small e acute is 233).
\<close>

definition example_server :: imap_server where
  "example_server =
     \<lparr>imap_connect = (\<lambda>host port. Inr ()),
      imap_login = (\<lambda>user pw. Inr ()),
      imap_list = Inr (u ''OK'', [list_line ''INBOX'']),
      imap_select = (\<lambda>f. Inr (if f = u ''INBOX'' then u ''OK'' else u ''NO'')),
      imap_search = (\<lambda>f. Inr (u ''OK'', Some ''1 2 3'')),
      imap_fetch = (\<lambda>f i.
         if i = ''1'' then Inr (u ''OK'', Some (''Alice <a@x.com>|25 Dec|'' @ example_body))
         else if i = ''2'' then Inr (u ''OK'', Some (''Alice <a@x.com>|9 Feb|'' @ example_body))
         else if i = ''3'' then Inr (u ''OK'', Some (CHR 0xC9 # ''ric <e@x.com>|03 Jan|hi''))
         else Inr (u ''NO'', None)),
      imap_close = Inr (),
      imap_logout = Inr ()\<rparr>"

text \<open>The same server when it cannot be reached.\<close>

definition unreachable_server :: imap_server where
  "unreachable_server =
     example_server\<lparr>imap_connect := (\<lambda>host port. Inl (Exception (u ''timed out'')))\<rparr>"

text \<open>The same server when the fetch of message 2 raises.\<close>

definition flaky_server :: imap_server where
  "flaky_server =
     example_server\<lparr>imap_fetch := (\<lambda>f i. if i = ''2'' then Inl (Exception (u ''abort''))
                                         else imap_fetch example_server f i)\<rparr>"

definition empty_state :: state where
  "empty_state = \<lparr>memory_cache = Map.empty, net_log = []\<rparr>"

text \<open>
  A state whose cache holds, for the account \<open>a@gmail.com\<close>, an entry stored at time 0
  with no messages.
\<close>

definition empty_entry_state :: state where
  "empty_entry_state =
     \<lparr>memory_cache = Map.empty(get_cache_key example_lib (u ''a@gmail.com'')
                                   \<mapsto> \<lparr>data = [], timestamp = 0\<rparr>),
      net_log = []\<rparr>"

text \<open>The three messages of the example server, as the fetcher returns them.\<close>

definition message_1 :: message where
  "message_1 =
     \<lparr>uid = u ''1'', sender = u ''Alice <a@x.com>'', subject = u ''hello'', date = u ''25 Dec'',
      folder = u ''INBOX'', snippet = u ''Dear Bob, see you''\<rparr>"

definition message_2 :: message where
  "message_2 =
     \<lparr>uid = u ''2'', sender = u ''Alice <a@x.com>'', subject = u ''hello'', date = u ''9 Feb'',
      folder = u ''INBOX'', snippet = u ''Dear Bob, see you''\<rparr>"

definition message_3 :: message where
  "message_3 =
     \<lparr>uid = u ''3'', sender = 201 # u ''ric <e@x.com>'', subject = u ''hello'',
      date = u ''03 Jan'', folder = u ''INBOX'', snippet = u ''hi''\<rparr>"

text \<open>What the aggregator returns for the example server.\<close>

definition example_messages :: "message list" where
  "example_messages = [message_2, message_1, message_3]"

section \<open>The examples, evaluated\<close>

text \<open>
  What the functions return on the example data, computed once and used in the examples
  below.
\<close>

lemmas fetch_defs = fetch_messages_from_folder_def fetch_folder_try_def fetch_one_def
  recent_ids_def slice_from_def bytes_split_def is_space_byte_def
  decode_mime_words_def decode_mime_words_try_def header_get_def
  raw_snippet_def clean_snippet_def split_ws_def is_space_def
  example_lib_def example_parse_def example_body_def split_sep_def

lemma example_session [simp]:
  "imap_connect example_server host port = Inr ()"
  "imap_login example_server user pw = Inr ()"
  "imap_close example_server = Inr ()"
  "imap_list example_server = Inr (u ''OK'', [list_line ''INBOX''])"
  by (simp_all add: example_server_def)

lemma example_fetch_30:
  "fetch_messages_from_folder example_lib example_server (u ''INBOX'') 30
     = [message_3, message_2, message_1]"
  by (simp add: fetch_defs example_server_def u_def message_1_def message_2_def message_3_def)

lemma example_fetch_0:
  "fetch_messages_from_folder example_lib example_server (u ''INBOX'') 0
     = [message_3, message_2, message_1]"
  by (simp add: fetch_defs example_server_def u_def message_1_def message_2_def message_3_def)

lemma example_fetch_2:
  "fetch_messages_from_folder example_lib example_server (u ''INBOX'') 2
     = [message_3, message_2]"
  by (simp add: fetch_defs example_server_def u_def message_1_def message_2_def message_3_def)

lemma flaky_fetch_3:
  "fetch_messages_from_folder example_lib flaky_server (u ''INBOX'') 3
     = [message_3, message_1]"
  by (simp add: fetch_defs flaky_server_def example_server_def u_def
      message_1_def message_2_def message_3_def)

lemma example_folders: "folders_to_check example_lib example_server = [u ''INBOX'']"
  by (simp add: folders_to_check_def list_folders_try_def preferred_folders_def folder_name_def
      list_line_def example_lib_def split_sep_def strip_by_def dquote_def u_def)

lemma example_sorted: "sort_by_date_desc [message_3, message_2, message_1] = example_messages"
  by (simp add: sort_by_date_desc_def example_messages_def message_1_def message_2_def
      message_3_def u_def)

lemma example_host: "get_imap_server lib (u ''a@gmail.com'') = Inr (u ''imap.gmail.com'')"
  by (simp add: get_imap_server_def split_sep_def lower_def lower_code_def u_def)

lemma example_aggregate:
  "fst (fetch_messages_from_account example_lib example_server 0 0 (u ''a@gmail.com'') (u ''pw'')
          empty_state) = Inr example_messages"
  by (simp add: fetch_messages_from_account_def get_from_cache_def empty_state_def
      connect_to_imap_def example_host example_folders example_fetch_30 example_sorted)

section \<open>Server resolver: properties\<close>

lemma split_from_first:
  "c \<in> set s \<Longrightarrow>
   split_from [c] cur s =
     (cur @ takeWhile (\<lambda>x. x \<noteq> c) s) # split_from [c] [] (tl (dropWhile (\<lambda>x. x \<noteq> c) s))"
  by (induction s arbitrary: cur) auto

lemma hd_split_from:
  "hd (split_from [c] cur s) = cur @ takeWhile (\<lambda>x. x \<noteq> c) s"
  by (induction s arbitrary: cur) auto

lemma split_from_not_Nil: "split_from sep cur s \<noteq> []"
  by (induction sep cur s rule: split_from.induct) auto

text \<open>
  C4, as the code has it. For every address that contains \<open>@\<close>, \<open>get_imap_server\<close>
  returns a host name and does not raise. The domain it looks at is the text between
  the first \<open>@\<close> and the next one (or the end of the address), in lower case. The first
  rule that applies decides: \<open>gmail\<close>, then \<open>yahoo\<close>, then \<open>outlook\<close>, \<open>hotmail\<close> or
  \<open>live\<close>, then \<open>icloud\<close>, and \<open>imap.<domain>\<close> otherwise.
\<close>

theorem get_imap_server_with_at:
  assumes "of_char (CHR ''@'') \<in> set a"
  shows "get_imap_server lib a =
           Inr (let domain = lower lib (takeWhile (\<lambda>x. x \<noteq> of_char (CHR ''@''))
                                          (tl (dropWhile (\<lambda>x. x \<noteq> of_char (CHR ''@'')) a)))
                in if contains (u ''gmail'') domain then u ''imap.gmail.com''
                   else if contains (u ''yahoo'') domain then u ''imap.mail.yahoo.com''
                   else if contains (u ''outlook'') domain \<or> contains (u ''hotmail'') domain
                           \<or> contains (u ''live'') domain then u ''outlook.office365.com''
                   else if contains (u ''icloud'') domain then u ''imap.mail.me.com''
                   else u ''imap.'' @ domain)"
proof -
  let ?at = "of_char (CHR ''@'') :: nat"
  let ?r = "tl (dropWhile (\<lambda>x. x \<noteq> ?at) a)"
  have sep: "u ''@'' = [?at]" by (simp add: u_def)
  obtain d ds where r: "split_from [?at] [] ?r = d # ds"
    using split_from_not_Nil by (cases "split_from [?at] [] ?r") auto
  have "hd (split_from [?at] [] ?r) = takeWhile (\<lambda>x. x \<noteq> ?at) ?r"
    using hd_split_from [of ?at "[]" ?r] by simp
  with r have d: "d = takeWhile (\<lambda>x. x \<noteq> ?at) ?r" by simp
  have "split_sep (u ''@'') a = takeWhile (\<lambda>x. x \<noteq> ?at) a # d # ds"
    using split_from_first [OF assms, of "[]"] r by (simp only: split_sep_def sep) simp
  then show ?thesis
    by (simp add: get_imap_server_def d Let_def)
qed

text \<open>
  The two addresses of the specification, one with a second \<open>@\<close>, and two whose domain
  is not ASCII: \<open>Ecole.fr\<close> written with a capital E acute (code point 201) and
  \<open>outlooK.com\<close> written with the Kelvin sign (code point 8490).
\<close>

theorem get_imap_server_with_at_witness:
  "of_char (CHR ''@'') \<in> set (u ''a@gmail.com'')
   \<and> get_imap_server example_lib (u ''a@gmail.com'') = Inr (u ''imap.gmail.com'')
   \<and> of_char (CHR ''@'') \<in> set (u ''a@myown.org'')
   \<and> get_imap_server example_lib (u ''a@myown.org'') = Inr (u ''imap.myown.org'')
   \<and> of_char (CHR ''@'') \<in> set (u ''x@y@gmail.com'')
   \<and> get_imap_server example_lib (u ''x@y@gmail.com'') = Inr (u ''imap.y'')
   \<and> of_char (CHR ''@'') \<in> set (u ''a@'' @ [201] @ u ''cole.fr'')
   \<and> get_imap_server example_lib (u ''a@'' @ [201] @ u ''cole.fr'')
       = Inr (u ''imap.'' @ [233] @ u ''cole.fr'')
   \<and> of_char (CHR ''@'') \<in> set (u ''a@outloo'' @ [8490] @ u ''.com'')
   \<and> get_imap_server example_lib (u ''a@outloo'' @ [8490] @ u ''.com'')
       = Inr (u ''outlook.office365.com'')"
  using get_imap_server_with_at [of "u ''a@gmail.com''" example_lib]
    get_imap_server_with_at [of "u ''a@myown.org''" example_lib]
    get_imap_server_with_at [of "u ''x@y@gmail.com''" example_lib]
    get_imap_server_with_at [of "u ''a@'' @ [201] @ u ''cole.fr''" example_lib]
    get_imap_server_with_at [of "u ''a@outloo'' @ [8490] @ u ''.com''" example_lib]
  by (simp add: u_def lower_def lower_code_def example_lib_def example_lower_code_def)

text \<open>
  C4 as stated fails: an address without \<open>@\<close> is an address string, and on it the
  function raises \<open>IndexError\<close> instead of returning a host name.
\<close>

theorem get_imap_server_no_at_raises:
  "get_imap_server example_lib (u ''nodomain'') = Inl (Exception (u ''list index out of range''))"
  by (simp add: get_imap_server_def split_sep_def u_def)

section \<open>Header decoder: properties\<close>



section \<open>Cache store: properties\<close>

text \<open>
  C7. After \<open>set_cache\<close> at time \<open>now\<close>, a \<open>get_from_cache\<close> at a time less than 600
  seconds later returns the data that was set and leaves the cache as it is. At a time
  600 seconds later or more it returns nothing and deletes the entry, and a further
  \<open>get_from_cache\<close>, at any time, returns nothing again and changes nothing.
  \<open>set_cache\<close> stores the new data and the current time under the key whatever was
  there, and leaves the other keys alone.
\<close>

theorem cache_set_get_expiry:
  "(now' - now < 600 \<longrightarrow>
      get_from_cache now' k (set_cache now k v mc) = (Some v, set_cache now k v mc))
   \<and> (600 \<le> now' - now \<longrightarrow>
        get_from_cache now' k (set_cache now k v mc)
          = (None, (set_cache now k v mc)(k := None))
        \<and> get_from_cache now'' k (snd (get_from_cache now' k (set_cache now k v mc)))
          = (None, snd (get_from_cache now' k (set_cache now k v mc))))
   \<and> set_cache now k v mc k = Some \<lparr>data = v, timestamp = now\<rparr>
   \<and> (\<forall>k'. k' \<noteq> k \<longrightarrow> set_cache now k v mc k' = mc k')"
  by (simp add: get_from_cache_def set_cache_def CACHE_TTL_def)

text \<open>Set at time 100; read at 100, at 700 and again at 900.\<close>

theorem cache_set_get_expiry_witness:
  "(100::real) - 100 < 600
   \<and> get_from_cache 100 (u ''k'') (set_cache 100 (u ''k'') [] Map.empty)
       = (Some [], set_cache 100 (u ''k'') [] Map.empty)
   \<and> (600::real) \<le> 700 - 100
   \<and> get_from_cache 700 (u ''k'') (set_cache 100 (u ''k'') [] Map.empty)
       = (None, (set_cache 100 (u ''k'') [] Map.empty)(u ''k'' := None))
   \<and> get_from_cache 900 (u ''k'') (snd (get_from_cache 700 (u ''k'') (set_cache 100 (u ''k'') [] Map.empty)))
       = (None, snd (get_from_cache 700 (u ''k'') (set_cache 100 (u ''k'') [] Map.empty)))
   \<and> u ''j'' \<noteq> u ''k'' \<and> set_cache 100 (u ''k'') [] Map.empty (u ''j'') = None"
proof -
  have fresh: "(100::real) - 100 < 600" and stale: "(600::real) \<le> 700 - 100"
    and other: "u ''j'' \<noteq> u ''k''"
    by (simp_all add: u_def)
  from fresh cache_set_get_expiry [of 100 100 "u ''k''" "[]" Map.empty 900]
  have 1: "get_from_cache 100 (u ''k'') (set_cache 100 (u ''k'') [] Map.empty)
       = (Some [], set_cache 100 (u ''k'') [] Map.empty)" by blast
  from stale cache_set_get_expiry [of 700 100 "u ''k''" "[]" Map.empty 900]
  have 2: "get_from_cache 700 (u ''k'') (set_cache 100 (u ''k'') [] Map.empty)
       = (None, (set_cache 100 (u ''k'') [] Map.empty)(u ''k'' := None))"
    and 3: "get_from_cache 900 (u ''k'')
              (snd (get_from_cache 700 (u ''k'') (set_cache 100 (u ''k'') [] Map.empty)))
       = (None, snd (get_from_cache 700 (u ''k'') (set_cache 100 (u ''k'') [] Map.empty)))"
    by blast+
  from other cache_set_get_expiry [of 700 100 "u ''k''" "[]" Map.empty 900]
  have 4: "set_cache 100 (u ''k'') [] Map.empty (u ''j'') = None" by simp
  from fresh stale other 1 2 3 4 show ?thesis by blast
qed

section \<open>Account aggregator: connection failure\<close>

text \<open>
  When the connection or the login raises and the cache has nothing to return, the
  aggregator raises status 500 around the text of the 401.
\<close>

lemma connect_failure_wrapped:
  assumes "get_imap_server lib a = Inr host"
    and "imap_connect srv host 993 = Inl e
         \<or> (imap_connect srv host 993 = Inr () \<and> imap_login srv a pw = Inl e)"
    and "fst (get_from_cache now_read (get_cache_key lib a) (memory_cache st)) = None
         \<or> fst (get_from_cache now_read (get_cache_key lib a) (memory_cache st)) = Some []"
  shows "fst (fetch_messages_from_account lib srv now_read now_write a pw st) =
           Inl (HTTPException 500
                  (u ''Error fetching messages: ''
                     @ http_exception_str lib 401
                         (u ''Failed to connect to email server: '' @ exn_str lib e)))"
  using assms
  by (auto simp: fetch_messages_from_account_def connect_to_imap_def exn_str_def Let_def
      split: prod.splits)

text \<open>
  C1, evaluated where it fails. The server cannot be reached and the cache is empty.
  \<open>connect_to_imap\<close> raises the \<open>HTTPException\<close> with status 401, but the \<open>except
  Exception\<close> of \<open>fetch_messages_from_account\<close> catches it and raises status 500, so
  \<open>get_messages\<close> answers 500 and not 401. The connection was tried once.
\<close>

theorem connect_failure_gives_500:
  "fst (get_messages lib unreachable_server 0 0 (u ''a@gmail.com'') (u ''pw'') empty_state)
     = Inl (HTTPException 500
              (u ''Error fetching messages: ''
                 @ http_exception_str lib 401 (u ''Failed to connect to email server: timed out'')))
   \<and> net_log (snd (get_messages lib unreachable_server 0 0 (u ''a@gmail.com'') (u ''pw'') empty_state))
     = [Connect (u ''imap.gmail.com'') 993]"
  by (simp add: get_messages_def fetch_messages_from_account_def get_from_cache_def
      empty_state_def connect_to_imap_def get_imap_server_def split_sep_def lower_def
      lower_code_def u_def unreachable_server_def example_server_def exn_str_def Let_def)

section \<open>Folder fetcher: properties\<close>

lemma words_from_words:
  "w \<in> set (words_from sp cur s) \<Longrightarrow> (\<And>c. c \<in> set cur \<Longrightarrow> \<not> sp c) \<Longrightarrow>
   w \<noteq> [] \<and> (\<forall>c\<in>set w. \<not> sp c)"
proof (induction s arbitrary: cur)
  case Nil
  then show ?case by (cases "cur = []") auto
next
  case (Cons c cs)
  show ?case
  proof (cases "sp c")
    case True
    show ?thesis
    proof (cases "cur = []")
      case True
      with \<open>sp c\<close> Cons.prems(1) have "w \<in> set (words_from sp [] cs)" by simp
      then show ?thesis by (rule Cons.IH) simp
    next
      case False
      with \<open>sp c\<close> Cons.prems(1) have "w = cur \<or> w \<in> set (words_from sp [] cs)" by simp
      then show ?thesis
      proof
        assume "w = cur"
        with False Cons.prems(2) show ?thesis by blast
      next
        assume "w \<in> set (words_from sp [] cs)"
        then show ?thesis by (rule Cons.IH) simp
      qed
    qed
  next
    case False
    with Cons.prems(1) have "w \<in> set (words_from sp (cur @ [c]) cs)" by simp
    then show ?thesis
    proof (rule Cons.IH)
      fix x assume "x \<in> set (cur @ [c])"
      with False Cons.prems(2) show "\<not> sp x" by auto
    qed
  qed
qed

lemma join_sp_Cons: "join_sp (w # ws) = (if ws = [] then w else w @ u '' '' @ join_sp ws)"
  by (cases ws) simp_all

lemma length_join_words:
  "length (join_sp (words_from sp cur s)) \<le> length cur + length s"
proof (induction s arbitrary: cur)
  case Nil
  then show ?case by simp
next
  case (Cons c cs)
  have nil: "length (join_sp (words_from sp [] cs)) \<le> length cs"
    using Cons.IH [of "[]"] by simp
  have app: "length (join_sp (words_from sp (cur @ [c]) cs)) \<le> length cur + 1 + length cs"
    using Cons.IH [of "cur @ [c]"] by simp
  show ?case
  proof (cases "sp c")
    case True
    show ?thesis
    proof (cases "cur = []")
      case True
      with \<open>sp c\<close> nil show ?thesis by simp
    next
      case False
      have "length (join_sp (cur # words_from sp [] cs)) \<le> length cur + 1 + length cs"
        using nil by (simp only: join_sp_Cons) (simp add: u_def split: if_splits)
      with \<open>sp c\<close> False show ?thesis by simp
    qed
  next
    case False
    with app show ?thesis by simp
  qed
qed

lemma words_from_no_space:
  "\<forall>c\<in>set s. \<not> sp c \<Longrightarrow> cur @ s \<noteq> [] \<Longrightarrow> words_from sp cur s = [cur @ s]"
  by (induction s arbitrary: cur) simp_all

lemma length_first_plain_text: "length (first_plain_text lib parts) \<le> 200"
  by (induction parts) (simp_all split: sum.splits option.splits list.splits)

lemma length_raw_snippet: "length (raw_snippet lib em) \<le> 200"
  by (simp add: raw_snippet_def length_first_plain_text split: sum.splits option.splits list.splits)

lemma clean_snippet_collapsed:
  assumes "length s \<le> 200"
  shows "clean_snippet s = join_sp (split_ws s)"
proof (cases "s = []")
  case True
  then show ?thesis by (simp add: clean_snippet_def split_ws_def)
next
  case False
  have "length (join_sp (split_ws s)) \<le> length s"
    using length_join_words [of is_space "[]" s] by (simp add: split_ws_def)
  with assms False show ?thesis
    by (simp add: clean_snippet_def)
qed

lemma fetch_one_message:
  assumes "fetch_one lib mail fld i = Inr (Some m)"
  shows "folder m = fld \<and> (\<exists>em. snippet m = clean_snippet (raw_snippet lib em))"
proof -
  from assms obtain em sndr subj u where
    "m = \<lparr>uid = u, sender = sndr, subject = subj, date = header_get (header_date em),
          folder = fld, snippet = clean_snippet (raw_snippet lib em)\<rparr>"
    unfolding fetch_one_def
    by (simp split: sum.splits prod.splits if_splits option.splits) blast
  then show ?thesis by auto
qed

lemma fetch_loop_message:
  "m \<in> set (fetch_loop lib mail fld ids) \<Longrightarrow>
   \<exists>i\<in>set ids. fetch_one lib mail fld i = Inr (Some m)"
proof (induction ids)
  case Nil
  then show ?case by simp
next
  case (Cons i ids)
  show ?case
  proof (cases "fetch_one lib mail fld i")
    case (Inl e)
    with Cons show ?thesis by simp
  next
    case (Inr r)
    with Cons show ?thesis by (cases r) auto
  qed
qed

lemma fetch_folder_message:
  assumes "m \<in> set (fetch_messages_from_folder lib mail fld limit)"
  shows "\<exists>i. fetch_one lib mail fld i = Inr (Some m)"
proof -
  from assms obtain ids where "m \<in> set (fetch_loop lib mail fld ids)"
    unfolding fetch_messages_from_folder_def fetch_folder_try_def
    by (simp split: sum.splits prod.splits if_splits option.splits)
  then show ?thesis using fetch_loop_message by blast
qed

text \<open>
  An identifier whose fetch fails is left out, and the identifiers around it are
  processed as before.
\<close>

lemma fetch_folder_select_fails:
  "imap_select mail fld = Inl e \<or> (imap_select mail fld = Inr s \<and> s \<noteq> u ''OK'') \<Longrightarrow>
   fetch_messages_from_folder lib mail fld limit = []"
  by (auto simp: fetch_messages_from_folder_def fetch_folder_try_def)

lemma fetch_loop_concat:
  "fetch_loop lib mail fld ids =
     concat (map (\<lambda>i. case fetch_one lib mail fld i of Inr (Some m) \<Rightarrow> [m] | _ \<Rightarrow> []) ids)"
  by (induction ids) (simp_all split: sum.splits option.splits)

lemma fetch_loop_append:
  "fetch_loop lib mail fld (xs @ ys) = fetch_loop lib mail fld xs @ fetch_loop lib mail fld ys"
  by (simp add: fetch_loop_concat)

lemma fetch_loop_skips:
  "fetch_one lib mail fld i = Inl e \<or> fetch_one lib mail fld i = Inr None \<Longrightarrow>
   fetch_loop lib mail fld (xs @ i # ys) = fetch_loop lib mail fld xs @ fetch_loop lib mail fld ys"
  by (auto simp: fetch_loop_append)

lemma length_fetch_loop: "length (fetch_loop lib mail fld ids) \<le> length ids"
  by (induction ids) (simp_all split: sum.splits option.splits)

lemma recent_ids_positive:
  "0 < limit \<Longrightarrow> recent_ids limit ids = drop (length ids - nat limit) ids"
  by (auto simp: recent_ids_def slice_from_def Let_def max_def nat_diff_distrib')

lemma fetch_folder_tagged:
  "m \<in> set (fetch_messages_from_folder lib mail fld limit) \<Longrightarrow> folder m = fld"
  using fetch_folder_message fetch_one_message by blast

lemma fetch_folder_positive_limit:
  assumes "0 < limit"
  shows "length (fetch_messages_from_folder lib mail fld limit) \<le> nat limit"
    and "imap_select mail fld = Inr (u ''OK'') \<Longrightarrow> imap_search mail fld = Inr (u ''OK'', Some b) \<Longrightarrow>
         fetch_messages_from_folder lib mail fld limit =
           fetch_loop lib mail fld
             (rev (drop (length (bytes_split b) - nat limit) (bytes_split b)))"
proof -
  have "length (fetch_loop lib mail fld (rev (recent_ids limit ids))) \<le> nat limit" for ids
    using length_fetch_loop [of lib mail fld "rev (recent_ids limit ids)"] assms
    by (simp add: recent_ids_positive)
  then show "length (fetch_messages_from_folder lib mail fld limit) \<le> nat limit"
    by (simp add: fetch_messages_from_folder_def fetch_folder_try_def
        split: sum.splits prod.splits option.splits)
  show "imap_select mail fld = Inr (u ''OK'') \<Longrightarrow> imap_search mail fld = Inr (u ''OK'', Some b) \<Longrightarrow>
         fetch_messages_from_folder lib mail fld limit =
           fetch_loop lib mail fld
             (rev (drop (length (bytes_split b) - nat limit) (bytes_split b)))"
    using assms
    by (simp add: fetch_messages_from_folder_def fetch_folder_try_def recent_ids_positive)
qed

text \<open>
  C10. Every message that \<open>fetch_messages_from_folder\<close> returns has a snippet of at most
  200 characters that consists of words without white space, joined by single spaces
  (no words at all gives the empty snippet). A message that is not multipart and whose
  body is 300 times the letter \<open>x\<close> gets a snippet of exactly 200 times \<open>x\<close>.
\<close>

theorem snippet_bounded_collapsed:
  "(\<forall>m\<in>set (fetch_messages_from_folder lib mail fld limit).
      length (snippet m) \<le> 200
      \<and> (\<exists>ws. snippet m = join_sp ws \<and> (\<forall>w\<in>set ws. w \<noteq> [] \<and> (\<forall>c\<in>set w. \<not> is_space c))))
   \<and> (\<not> is_multipart em \<and> body_payload em = Inr (Some (replicate 300 CHR ''x''))
        \<and> decode_utf8_ignore lib (replicate 300 CHR ''x'') = u (replicate 300 CHR ''x'')
      \<longrightarrow> clean_snippet (raw_snippet lib em) = u (replicate 200 CHR ''x''))"
proof (intro conjI ballI impI)
  fix m assume "m \<in> set (fetch_messages_from_folder lib mail fld limit)"
  then obtain i where "fetch_one lib mail fld i = Inr (Some m)"
    using fetch_folder_message by blast
  then obtain em where "snippet m = clean_snippet (raw_snippet lib em)"
    using fetch_one_message by blast
  then have sn: "snippet m = join_sp (split_ws (raw_snippet lib em))"
    by (simp add: clean_snippet_collapsed length_raw_snippet)
  have "length (join_sp (split_ws (raw_snippet lib em))) \<le> length (raw_snippet lib em)"
    using length_join_words [of is_space "[]"] by (simp add: split_ws_def)
  with sn show "length (snippet m) \<le> 200"
    using length_raw_snippet [of lib em] by simp
  have "\<forall>w\<in>set (split_ws (raw_snippet lib em)). w \<noteq> [] \<and> (\<forall>c\<in>set w. \<not> is_space c)"
    unfolding split_ws_def using words_from_words [of _ is_space "[]"] by simp
  with sn show "\<exists>ws. snippet m = join_sp ws \<and> (\<forall>w\<in>set ws. w \<noteq> [] \<and> (\<forall>c\<in>set w. \<not> is_space c))"
    by blast
next
  assume a: "\<not> is_multipart em \<and> body_payload em = Inr (Some (replicate 300 CHR ''x''))
        \<and> decode_utf8_ignore lib (replicate 300 CHR ''x'') = u (replicate 300 CHR ''x'')"
  have r: "replicate 300 CHR ''x'' = CHR ''x'' # replicate 299 CHR ''x''"
    using replicate_Suc [of 299 "CHR ''x''"] by simp
  have "raw_snippet lib em = take 200 (decode_utf8_ignore lib (replicate 300 CHR ''x''))"
    using a by (simp add: raw_snippet_def r)
  with a have raw: "raw_snippet lib em = replicate 200 (120::nat)"
    by (simp add: u_def)
  have "split_ws (replicate 200 (120::nat)) = [replicate 200 120]"
    using words_from_no_space [of "replicate 200 (120::nat)" is_space "[]"]
    by (simp add: split_ws_def is_space_def)
  then show "clean_snippet (raw_snippet lib em) = u (replicate 200 CHR ''x'')"
    by (simp add: raw clean_snippet_def u_def)
qed

text \<open>
  The messages 1 and 3 of the example server: the body of message 1 has runs of white
  space, which the snippet has as single spaces. Then a text with two no-break spaces
  and a next-line character between its letters, and a body of 300 times \<open>x\<close>.
\<close>

theorem snippet_bounded_collapsed_witness:
  "message_1 \<in> set (fetch_messages_from_folder example_lib example_server (u ''INBOX'') 30)
   \<and> snippet message_1 = u ''Dear Bob, see you'' \<and> length (snippet message_1) \<le> 200
   \<and> message_3 \<in> set (fetch_messages_from_folder example_lib example_server (u ''INBOX'') 30)
   \<and> snippet message_3 = u ''hi'' \<and> length (snippet message_3) \<le> 200
   \<and> clean_snippet [97, 160, 160, 98, 133, 99] = u ''a b c''
   \<and> \<not> is_multipart \<lparr>header_from = None, header_subject = None, header_date = None,
                         is_multipart = False, walk = [],
                         body_payload = Inr (Some (replicate 300 CHR ''x''))\<rparr>
   \<and> decode_utf8_ignore example_lib (replicate 300 CHR ''x'') = u (replicate 300 CHR ''x'')
   \<and> clean_snippet (raw_snippet example_lib
         \<lparr>header_from = None, header_subject = None, header_date = None,
          is_multipart = False, walk = [],
          body_payload = Inr (Some (replicate 300 CHR ''x''))\<rparr>) = u (replicate 200 CHR ''x'')
   \<and> length (u (replicate 200 CHR ''x'')) = 200"
proof -
  let ?em = "\<lparr>header_from = None, header_subject = None, header_date = None,
                         is_multipart = False, walk = [],
                         body_payload = Inr (Some (replicate 300 CHR ''x''))\<rparr>"
  have m: "message_1 \<in> set (fetch_messages_from_folder example_lib example_server (u ''INBOX'') 30)"
    "message_3 \<in> set (fetch_messages_from_folder example_lib example_server (u ''INBOX'') 30)"
    by (simp_all add: example_fetch_30)
  have s: "snippet message_1 = u ''Dear Bob, see you''" "snippet message_3 = u ''hi''"
    by (simp_all add: message_1_def message_3_def)
  have n: "clean_snippet [97, 160, 160, 98, 133, 99] = u ''a b c''"
    by (simp add: clean_snippet_def split_ws_def is_space_def u_def)
  have d: "decode_utf8_ignore example_lib (replicate 300 CHR ''x'') = u (replicate 300 CHR ''x'')"
    by (simp add: example_lib_def)
  note th = snippet_bounded_collapsed [of example_lib example_server "u ''INBOX''" 30 ?em]
  from th m have 1: "length (snippet message_1) \<le> 200" "length (snippet message_3) \<le> 200"
    by blast+
  from th d have 2: "clean_snippet (raw_snippet example_lib ?em) = u (replicate 200 CHR ''x'')"
    by simp
  have l: "length (u (replicate 200 CHR ''x'')) = 200" by (simp add: u_def)
  from m s n d 1 2 l show ?thesis by simp
qed

text \<open>
  C6, as the code has it. For every limit of at least 1: when the folder cannot be
  selected, because the command raises or answers with a status other than \<open>OK\<close>, the
  result is empty and no exception is raised; the result has at most \<open>limit\<close> messages;
  every message carries the name of the folder; and when selection and search answer
  \<open>OK\<close>, the result holds, for the last \<open>limit\<close> identifiers taken in reverse, the
  message of each identifier whose fetch and parse succeed, and nothing for an
  identifier whose fetch fails, which does not stop the identifiers after it.
\<close>

theorem fetch_folder_limited:
  assumes "1 \<le> limit"
  shows "((imap_select mail fld = Inl e \<or> (imap_select mail fld = Inr s \<and> s \<noteq> u ''OK''))
            \<longrightarrow> fetch_messages_from_folder lib mail fld limit = [])
     \<and> length (fetch_messages_from_folder lib mail fld limit) \<le> nat limit
     \<and> (\<forall>m\<in>set (fetch_messages_from_folder lib mail fld limit). folder m = fld)
     \<and> (imap_select mail fld = Inr (u ''OK'') \<and> imap_search mail fld = Inr (u ''OK'', Some b)
          \<longrightarrow> fetch_messages_from_folder lib mail fld limit =
                concat (map (\<lambda>i. case fetch_one lib mail fld i of
                                    Inr (Some m) \<Rightarrow> [m]
                                  | _ \<Rightarrow> [])
                          (rev (drop (length (bytes_split b) - nat limit) (bytes_split b)))))"
proof (intro conjI impI ballI)
  assume "imap_select mail fld = Inl e \<or> (imap_select mail fld = Inr s \<and> s \<noteq> u ''OK'')"
  then show "fetch_messages_from_folder lib mail fld limit = []"
    by (rule fetch_folder_select_fails)
next
  show "length (fetch_messages_from_folder lib mail fld limit) \<le> nat limit"
    using assms fetch_folder_positive_limit(1) by simp
next
  fix m assume "m \<in> set (fetch_messages_from_folder lib mail fld limit)"
  then show "folder m = fld" by (rule fetch_folder_tagged)
next
  assume "imap_select mail fld = Inr (u ''OK'') \<and> imap_search mail fld = Inr (u ''OK'', Some b)"
  then show "fetch_messages_from_folder lib mail fld limit =
                concat (map (\<lambda>i. case fetch_one lib mail fld i of
                                    Inr (Some m) \<Rightarrow> [m]
                                  | _ \<Rightarrow> [])
                          (rev (drop (length (bytes_split b) - nat limit) (bytes_split b))))"
    using assms fetch_folder_positive_limit(2) [of limit mail fld b lib]
    by (simp add: fetch_loop_concat)
qed

text \<open>
  The example server with the limits 2 and 3: the folder \<open>Sent\<close> cannot be selected,
  the folder \<open>INBOX\<close> gives its last two messages, the newer one first, and when the
  fetch of message 2 raises, the messages 3 and 1 are still returned.
\<close>

theorem fetch_folder_limited_witness:
  "(1::int) \<le> 2
   \<and> imap_select example_server (u ''Sent'') = Inr (u ''NO'') \<and> u ''NO'' \<noteq> u ''OK''
   \<and> fetch_messages_from_folder example_lib example_server (u ''Sent'') 2 = []
   \<and> imap_select example_server (u ''INBOX'') = Inr (u ''OK'')
   \<and> imap_search example_server (u ''INBOX'') = Inr (u ''OK'', Some ''1 2 3'')
   \<and> fetch_messages_from_folder example_lib example_server (u ''INBOX'') 2
       = [message_3, message_2]
   \<and> length (fetch_messages_from_folder example_lib example_server (u ''INBOX'') 2) \<le> nat 2
   \<and> message_3 \<in> set (fetch_messages_from_folder example_lib example_server (u ''INBOX'') 2)
   \<and> folder message_3 = u ''INBOX''
   \<and> (1::int) \<le> 3
   \<and> imap_select flaky_server (u ''INBOX'') = Inr (u ''OK'')
   \<and> imap_search flaky_server (u ''INBOX'') = Inr (u ''OK'', Some ''1 2 3'')
   \<and> fetch_one example_lib flaky_server (u ''INBOX'') ''2'' = Inl (Exception (u ''abort''))
   \<and> fetch_messages_from_folder example_lib flaky_server (u ''INBOX'') 3
       = [message_3, message_1]"
proof -
  have l: "(1::int) \<le> 2" "(1::int) \<le> 3" by simp_all
  have s1: "imap_select example_server (u ''Sent'') = Inr (u ''NO'')" "u ''NO'' \<noteq> u ''OK''"
    by (simp_all add: example_server_def u_def)
  have s2: "imap_select example_server (u ''INBOX'') = Inr (u ''OK'')"
    "imap_search example_server (u ''INBOX'') = Inr (u ''OK'', Some ''1 2 3'')"
    "imap_select flaky_server (u ''INBOX'') = Inr (u ''OK'')"
    "imap_search flaky_server (u ''INBOX'') = Inr (u ''OK'', Some ''1 2 3'')"
    by (simp_all add: example_server_def flaky_server_def)
  have f: "fetch_one example_lib flaky_server (u ''INBOX'') ''2'' = Inl (Exception (u ''abort''))"
    by (simp add: fetch_one_def flaky_server_def)
  have m: "message_3 \<in> set (fetch_messages_from_folder example_lib example_server (u ''INBOX'') 2)"
    by (simp add: example_fetch_2)
  from fetch_folder_limited [OF l(1), of example_server "u ''Sent''" _ "u ''NO''" example_lib] s1
  have 1: "fetch_messages_from_folder example_lib example_server (u ''Sent'') 2 = []"
    by blast
  from fetch_folder_limited [OF l(1), of example_server "u ''INBOX''" _ _ example_lib] m
  have 2: "length (fetch_messages_from_folder example_lib example_server (u ''INBOX'') 2) \<le> nat 2"
    and 3: "folder message_3 = u ''INBOX''"
    by blast+
  from fetch_folder_limited [OF l(2), of flaky_server "u ''INBOX''" _ _ example_lib "''1 2 3''"] s2
  have "fetch_messages_from_folder example_lib flaky_server (u ''INBOX'') 3 =
          concat (map (\<lambda>i. case fetch_one example_lib flaky_server (u ''INBOX'') i of
                              Inr (Some m) \<Rightarrow> [m]
                            | _ \<Rightarrow> [])
                    (rev (drop (length (bytes_split ''1 2 3'') - nat 3) (bytes_split ''1 2 3''))))"
    by blast
  then have 4: "fetch_messages_from_folder example_lib flaky_server (u ''INBOX'') 3
       = [message_3, message_1]"
    by (simp only: flaky_fetch_3)
  from l s1 s2 f m 1 2 3 4 example_fetch_2 show ?thesis by simp
qed

text \<open>
  C6 as stated fails for the limit 0: the slice \<open>ids[-limit:]\<close> is then \<open>ids[0:]\<close>,
  the whole list, so the three messages of the folder are returned although the limit
  allows none. The program itself only passes the limit 30.
\<close>

theorem limit_zero_returns_all:
  "map uid (fetch_messages_from_folder example_lib example_server (u ''INBOX'') 0)
     = [u ''3'', u ''2'', u ''1'']
   \<and> length (fetch_messages_from_folder example_lib example_server (u ''INBOX'') 0) = 3"
  by (simp add: example_fetch_0 message_1_def message_2_def message_3_def)

section \<open>Account aggregator: cache and order\<close>

text \<open>
  A fresh cache entry that holds at least one message is returned as it is; the cache and
  the log of the network stay as they were, so no connection is made.
\<close>

lemma cache_hit_nonempty:
  assumes "memory_cache st (get_cache_key lib a) = Some \<lparr>data = m # ms, timestamp = t\<rparr>"
    and "now_read - t < 600"
  shows "fetch_messages_from_account lib srv now_read now_write a pw st = (Inr (m # ms), st)"
  using assms
  by (simp add: fetch_messages_from_account_def get_from_cache_def CACHE_TTL_def)

text \<open>
  C2, evaluated where it fails. At time 1 the cache holds a fresh entry for the account,
  stored at time 0, whose message sequence is empty, and \<open>get_from_cache\<close> returns it.
  \<open>if cached_data:\<close> is false for the empty list, so the aggregator does not return
  the entry: it connects to the mail server, logs in and returns what it fetches.
\<close>

theorem fresh_empty_entry_connects:
  "fst (get_from_cache 1 (get_cache_key example_lib (u ''a@gmail.com''))
          (memory_cache empty_entry_state)) = Some []
   \<and> fst (fetch_messages_from_account example_lib example_server 1 1 (u ''a@gmail.com'') (u ''pw'')
            empty_entry_state)
     = Inr example_messages
   \<and> net_log (snd (fetch_messages_from_account example_lib example_server 1 1 (u ''a@gmail.com'')
                     (u ''pw'') empty_entry_state))
     = [Connect (u ''imap.gmail.com'') 993, Login (u ''a@gmail.com''), Close, Logout]"
  by (simp add: fetch_messages_from_account_def get_from_cache_def CACHE_TTL_def
      empty_entry_state_def connect_to_imap_def release_def example_host example_folders
      example_fetch_30 example_sorted Let_def)

lemma sort_by_date_desc_sorted:
  "sorted_wrt (\<lambda>x y. date y \<le> date x) (sort_by_date_desc ms)"
proof -
  have "sorted (map date (sort_key date (rev ms)))" by (rule sorted_sort_key)
  then have "sorted_wrt (\<lambda>x y. date x \<le> date y) (sort_key date (rev ms))"
    by (simp add: sorted_map)
  then show ?thesis
    unfolding sort_by_date_desc_def by (simp add: sorted_wrt_rev)
qed

lemma sort_by_date_desc_same:
  "set (sort_by_date_desc ms) = set ms \<and> length (sort_by_date_desc ms) = length ms"
  by (simp add: sort_by_date_desc_def)

text \<open>
  C3. When the result of the aggregator does not come from the cache, it is sorted in
  descending order of the raw date strs, compared as strs, and it holds the
  messages of the scanned folders.
\<close>

theorem aggregate_sorted_by_date_desc:
  assumes "fst (fetch_messages_from_account lib srv now_read now_write a pw st) = Inr ms"
    and "fst (get_from_cache now_read (get_cache_key lib a) (memory_cache st)) = None
         \<or> fst (get_from_cache now_read (get_cache_key lib a) (memory_cache st)) = Some []"
  shows "sorted_wrt (\<lambda>x y. date y \<le> date x) ms
         \<and> set ms = set (concat (map (\<lambda>f. fetch_messages_from_folder lib srv f 30)
                                  (folders_to_check lib srv)))
         \<and> length ms = length (concat (map (\<lambda>f. fetch_messages_from_folder lib srv f 30)
                                         (folders_to_check lib srv)))"
proof -
  from assms have "ms = sort_by_date_desc
                          (concat (map (\<lambda>f. fetch_messages_from_folder lib srv f 30)
                                     (folders_to_check lib srv)))"
    by (auto simp: fetch_messages_from_account_def Let_def
        split: prod.splits sum.splits option.splits list.splits)
  then show ?thesis
    using sort_by_date_desc_sorted sort_by_date_desc_same by simp
qed

text \<open>The example server: the dates \<open>03 Jan\<close>, \<open>25 Dec\<close>, \<open>9 Feb\<close> come out as \<open>9 Feb\<close>, \<open>25 Dec\<close>, \<open>03 Jan\<close>.\<close>

theorem aggregate_sorted_by_date_desc_witness:
  "fst (fetch_messages_from_account example_lib example_server 0 0 (u ''a@gmail.com'') (u ''pw'')
          empty_state) = Inr example_messages
   \<and> fst (get_from_cache 0 (get_cache_key example_lib (u ''a@gmail.com''))
            (memory_cache empty_state)) = None
   \<and> map date example_messages = [u ''9 Feb'', u ''25 Dec'', u ''03 Jan'']
   \<and> sorted_wrt (\<lambda>x y. date y \<le> date x) example_messages"
proof -
  have c: "fst (get_from_cache 0 (get_cache_key example_lib (u ''a@gmail.com''))
            (memory_cache empty_state)) = None"
    by (simp add: get_from_cache_def empty_state_def)
  have d: "map date example_messages = [u ''9 Feb'', u ''25 Dec'', u ''03 Jan'']"
    by (simp add: example_messages_def message_1_def message_2_def message_3_def)
  from aggregate_sorted_by_date_desc [OF example_aggregate disjI1 [OF c]] example_aggregate c d
  show ?thesis by blast
qed

section \<open>Account aggregator: folders to scan\<close>







section \<open>Query layer: properties\<close>

lemma aggregate_error_500:
  "fst (fetch_messages_from_account lib srv t0 t1 a pw st) = Inl e \<Longrightarrow> \<exists>d. e = HTTPException 500 d"
  by (auto simp: fetch_messages_from_account_def Let_def split: prod.splits option.splits list.splits sum.splits)

text \<open>
  C8. \<open>search_messages\<close> fails with status 400 exactly when the sender term is absent
  or empty. Otherwise, when the aggregator returns messages, it returns those whose
  sender in lower case contains the term in lower case, or whose address, extracted
  from the sender in lower case and put in lower case, contains it, with their number
  and the term.
\<close>

theorem search_by_sender:
  "((\<exists>d. fst (search_messages lib srv t0 t1 a pw sndr st) = Inl (HTTPException 400 d))
      \<longleftrightarrow> (sndr = None \<or> sndr = Some []))
   \<and> (\<forall>t ms st'. sndr = Some t \<and> t \<noteq> []
         \<and> fetch_messages_from_account lib srv t0 t1 a pw st = (Inr ms, st')
       \<longrightarrow> search_messages lib srv t0 t1 a pw sndr st =
             (Inr \<lparr>messages =
                     filter (\<lambda>m. contains (lower lib t) (lower lib (sender m))
                        \<or> contains (lower lib t)
                             (lower lib (extract_email_address (lower lib (sender m))))) ms,
                   count =
                     length (filter (\<lambda>m. contains (lower lib t) (lower lib (sender m))
                        \<or> contains (lower lib t)
                             (lower lib (extract_email_address (lower lib (sender m))))) ms),
                   search_term = t\<rparr>, st'))"
proof (intro conjI allI impI)
  show "(\<exists>d. fst (search_messages lib srv t0 t1 a pw sndr st) = Inl (HTTPException 400 d))
      \<longleftrightarrow> (sndr = None \<or> sndr = Some [])"
  proof (cases sndr)
    case None
    then show ?thesis by (simp add: search_messages_def)
  next
    case (Some t)
    show ?thesis
    proof (cases t)
      case Nil
      with Some show ?thesis by (simp add: search_messages_def)
    next
      case (Cons c cs)
      obtain r st' where r: "fetch_messages_from_account lib srv t0 t1 a pw st = (r, st')"
        by (cases "fetch_messages_from_account lib srv t0 t1 a pw st")
      show ?thesis
      proof (cases r)
        case (Inl e)
        with r aggregate_error_500 [of lib srv t0 t1 a pw st e]
        obtain d where "e = HTTPException 500 d" by auto
        with Some Cons r Inl show ?thesis by (simp add: search_messages_def)
      next
        case (Inr ms)
        with Some Cons r show ?thesis by (simp add: search_messages_def Let_def)
      qed
    qed
  qed
next
  fix t ms st'
  assume "sndr = Some t \<and> t \<noteq> [] \<and> fetch_messages_from_account lib srv t0 t1 a pw st = (Inr ms, st')"
  then show "search_messages lib srv t0 t1 a pw sndr st =
             (Inr \<lparr>messages =
                     filter (\<lambda>m. contains (lower lib t) (lower lib (sender m))
                        \<or> contains (lower lib t)
                             (lower lib (extract_email_address (lower lib (sender m))))) ms,
                   count =
                     length (filter (\<lambda>m. contains (lower lib t) (lower lib (sender m))
                        \<or> contains (lower lib t)
                             (lower lib (extract_email_address (lower lib (sender m))))) ms),
                   search_term = t\<rparr>, st')"
    by (cases t) (simp_all add: search_messages_def Let_def sender_matches_def [abs_def])
qed

lemmas match_defs = example_messages_def message_1_def message_2_def message_3_def
  lower_def lower_code_def extract_email_address_def strip_def strip_by_def is_space_def
  example_lib_def example_lower_code_def u_def

text \<open>
  The senders \<open>Alice <a@x.com>\<close> of the example server match \<open>ALICE\<close> and \<open>a@x.com\<close>, all
  three senders match \<open>x.com\<close>, none matches \<open>bob\<close>, and \<open>Eric <e@x.com>\<close>, written with
  a capital E acute, matches \<open>eric\<close> written with a small e acute; without a term the
  answer is 400.
\<close>

theorem search_by_sender_witness:
  "fst (search_messages example_lib example_server 0 0 (u ''a@gmail.com'') (u ''pw'') None
          empty_state)
     = Inl (HTTPException 400 (u ''Sender parameter is required''))
   \<and> fst (search_messages example_lib example_server 0 0 (u ''a@gmail.com'') (u ''pw'') (Some [])
            empty_state)
     = Inl (HTTPException 400 (u ''Sender parameter is required''))
   \<and> fst (search_messages example_lib example_server 0 0 (u ''a@gmail.com'') (u ''pw'')
            (Some (u ''ALICE'')) empty_state)
     = Inr \<lparr>messages = [message_2, message_1], count = 2, search_term = u ''ALICE''\<rparr>
   \<and> fst (search_messages example_lib example_server 0 0 (u ''a@gmail.com'') (u ''pw'')
            (Some (u ''a@x.com'')) empty_state)
     = Inr \<lparr>messages = [message_2, message_1], count = 2, search_term = u ''a@x.com''\<rparr>
   \<and> fst (search_messages example_lib example_server 0 0 (u ''a@gmail.com'') (u ''pw'')
            (Some (u ''x.com'')) empty_state)
     = Inr \<lparr>messages = [message_2, message_1, message_3], count = 3, search_term = u ''x.com''\<rparr>
   \<and> fst (search_messages example_lib example_server 0 0 (u ''a@gmail.com'') (u ''pw'')
            (Some (u ''bob'')) empty_state)
     = Inr \<lparr>messages = [], count = 0, search_term = u ''bob''\<rparr>
   \<and> fst (search_messages example_lib example_server 0 0 (u ''a@gmail.com'') (u ''pw'')
            (Some (233 # u ''ric'')) empty_state)
     = Inr \<lparr>messages = [message_3], count = 1, search_term = 233 # u ''ric''\<rparr>"
proof -
  let ?st = "snd (fetch_messages_from_account example_lib example_server 0 0 (u ''a@gmail.com'')
                    (u ''pw'') empty_state)"
  have agg: "fetch_messages_from_account example_lib example_server 0 0 (u ''a@gmail.com'')
               (u ''pw'') empty_state = (Inr example_messages, ?st)"
    using example_aggregate by (simp add: prod_eq_iff)
  have ne: "u ''ALICE'' \<noteq> []" "u ''a@x.com'' \<noteq> []" "u ''x.com'' \<noteq> []" "u ''bob'' \<noteq> []"
    by (simp_all add: u_def)
  have f1: "filter (\<lambda>m. contains (lower example_lib (u ''ALICE'')) (lower example_lib (sender m))
              \<or> contains (lower example_lib (u ''ALICE''))
                   (lower example_lib (extract_email_address (lower example_lib (sender m)))))
              example_messages = [message_2, message_1]"
    by (simp add: match_defs)
  have f2: "filter (\<lambda>m. contains (lower example_lib (u ''a@x.com'')) (lower example_lib (sender m))
              \<or> contains (lower example_lib (u ''a@x.com''))
                   (lower example_lib (extract_email_address (lower example_lib (sender m)))))
              example_messages = [message_2, message_1]"
    by (simp add: match_defs)
  have f3: "filter (\<lambda>m. contains (lower example_lib (u ''x.com'')) (lower example_lib (sender m))
              \<or> contains (lower example_lib (u ''x.com''))
                   (lower example_lib (extract_email_address (lower example_lib (sender m)))))
              example_messages = [message_2, message_1, message_3]"
    by (simp add: match_defs)
  have f4: "filter (\<lambda>m. contains (lower example_lib (u ''bob'')) (lower example_lib (sender m))
              \<or> contains (lower example_lib (u ''bob''))
                   (lower example_lib (extract_email_address (lower example_lib (sender m)))))
              example_messages = []"
    by (simp add: match_defs)
  have f5: "filter (\<lambda>m. contains (lower example_lib (233 # u ''ric'')) (lower example_lib (sender m))
              \<or> contains (lower example_lib (233 # u ''ric''))
                   (lower example_lib (extract_email_address (lower example_lib (sender m)))))
              example_messages = [message_3]"
    by (simp add: match_defs)
  note th = search_by_sender
    [of example_lib example_server 0 0 "u ''a@gmail.com''" "u ''pw''" _ empty_state]
  from th [of None]
  have "\<exists>d. fst (search_messages example_lib example_server 0 0 (u ''a@gmail.com'') (u ''pw'')
                   None empty_state) = Inl (HTTPException 400 d)"
    by blast
  then have n: "fst (search_messages example_lib example_server 0 0 (u ''a@gmail.com'') (u ''pw'')
                   None empty_state) = Inl (HTTPException 400 (u ''Sender parameter is required''))"
    by (simp add: search_messages_def)
  from th [of "Some []"]
  have "\<exists>d. fst (search_messages example_lib example_server 0 0 (u ''a@gmail.com'') (u ''pw'')
                   (Some []) empty_state) = Inl (HTTPException 400 d)"
    by blast
  then have e: "fst (search_messages example_lib example_server 0 0 (u ''a@gmail.com'') (u ''pw'')
                   (Some []) empty_state) = Inl (HTTPException 400 (u ''Sender parameter is required''))"
    by (simp add: search_messages_def)
  from th [of "Some (u ''ALICE'')"] agg ne
  have 1: "fst (search_messages example_lib example_server 0 0 (u ''a@gmail.com'') (u ''pw'')
            (Some (u ''ALICE'')) empty_state)
     = Inr \<lparr>messages = [message_2, message_1], count = 2, search_term = u ''ALICE''\<rparr>"
    by (simp add: f1)
  from th [of "Some (u ''a@x.com'')"] agg ne
  have 2: "fst (search_messages example_lib example_server 0 0 (u ''a@gmail.com'') (u ''pw'')
            (Some (u ''a@x.com'')) empty_state)
     = Inr \<lparr>messages = [message_2, message_1], count = 2, search_term = u ''a@x.com''\<rparr>"
    by (simp add: f2)
  from th [of "Some (u ''x.com'')"] agg ne
  have 3: "fst (search_messages example_lib example_server 0 0 (u ''a@gmail.com'') (u ''pw'')
            (Some (u ''x.com'')) empty_state)
     = Inr \<lparr>messages = [message_2, message_1, message_3], count = 3, search_term = u ''x.com''\<rparr>"
    by (simp add: f3)
  from th [of "Some (u ''bob'')"] agg ne
  have 4: "fst (search_messages example_lib example_server 0 0 (u ''a@gmail.com'') (u ''pw'')
            (Some (u ''bob'')) empty_state)
     = Inr \<lparr>messages = [], count = 0, search_term = u ''bob''\<rparr>"
    by (simp add: f4)
  from th [of "Some (233 # u ''ric'')"] agg
  have 5: "fst (search_messages example_lib example_server 0 0 (u ''a@gmail.com'') (u ''pw'')
            (Some (233 # u ''ric'')) empty_state)
     = Inr \<lparr>messages = [message_3], count = 1, search_term = 233 # u ''ric''\<rparr>"
    by (simp add: f5)
  from n e 1 2 3 4 5 show ?thesis by blast
qed

end
